theory Spec2Isabelle
  imports Complex_Main
begin

section \<open>Errors\<close>

text \<open>
  Every exception the portfolio code can raise is a value.  \<open>HTTPException\<close> carries the
  status code and the detail string of \<^verbatim>\<open>fastapi.HTTPException\<close>.  \<open>HTTPStatusError\<close> stands
  for whatever \<^verbatim>\<open>client.get\<close>, \<^verbatim>\<open>response.raise_for_status()\<close> or \<^verbatim>\<open>response.json()\<close>
  raise in \<^verbatim>\<open>fmp_service.py\<close>; no function of the repository catches it.
  \<open>RequestValidationError\<close> is the rejection of a request by a \<^verbatim>\<open>Field(..., gt=0)\<close> or
  \<^verbatim>\<open>Query(..., gt=0)\<close> constraint before the route body runs.  \<open>TypeError\<close> is what the
  arithmetic of a valuation raises on an operand that is not a number.
\<close>

datatype error =
    HTTPException int string
  | HTTPStatusError
  | RequestValidationError
  | ZeroDivisionError
  | TypeError

abbreviation HTTP_404_NOT_FOUND :: int where
  "HTTP_404_NOT_FOUND \<equiv> 404"

abbreviation HTTP_400_BAD_REQUEST :: int where
  "HTTP_400_BAD_REQUEST \<equiv> 400"

section \<open>Python primitives\<close>

text \<open>
  Python floats are modelled as exact rationals: rounding, infinities and NaN are not
  part of the model.  Division is the one partial operation the valuation uses, so it is
  written with its exception.
\<close>

definition truediv :: "rat \<Rightarrow> rat \<Rightarrow> error + rat" where
  "truediv a b = (if b = 0 then Inl ZeroDivisionError else Inr (a / b))"

text \<open>
  What \<^verbatim>\<open>response.json()\<close> decodes: \<^verbatim>\<open>None\<close>, a bool, a number, a string, a list or a dict.
\<close>

datatype json =
    JNull
  | JBool bool
  | JNum rat
  | JStr string
  | JArray "json list"
  | JObject "(string \<times> json) list"

text \<open>
  A decoded value as an operand of the arithmetic of a valuation
  (\<^verbatim>\<open>current_price * holding.shares\<close>, then \<^verbatim>\<open>total_value - invested\<close>).  A number is one, and
  so is a bool, which Python counts as 0 or 1.  With \<^verbatim>\<open>None\<close> or a dict the product raises
  \<^verbatim>\<open>TypeError\<close>; with a string or a list the product is a repetition and the subtraction
  that follows raises \<^verbatim>\<open>TypeError\<close>.  Nothing happens between the two lines, so the model
  gives \<open>None\<close> for all four and the valuation raises \<open>TypeError\<close> there.
\<close>

fun number :: "json \<Rightarrow> rat option" where
  "number (JNum r) = Some r"
| "number (JBool b) = Some (if b then 1 else 0)"
| "number JNull = None"
| "number (JStr s) = None"
| "number (JArray xs) = None"
| "number (JObject kvs) = None"

text \<open>A JSON object is an association list; \<^verbatim>\<open>d.get(k, default)\<close> and the truth value of a dict.\<close>

definition dict_get :: "(string \<times> 'v) list \<Rightarrow> string \<Rightarrow> 'v \<Rightarrow> 'v" where
  "dict_get d k dflt = (case map_of d k of Some v \<Rightarrow> v | None \<Rightarrow> dflt)"

definition truthy :: "(string \<times> 'v) list option \<Rightarrow> bool" where
  "truthy d = (case d of None \<Rightarrow> False | Some kvs \<Rightarrow> kvs \<noteq> [])"

text \<open>\<^verbatim>\<open>str.upper()\<close> on ASCII letters; other characters are left as they are.\<close>

definition upper_char :: "char \<Rightarrow> char" where
  "upper_char c =
     (let n = (of_char c :: nat) in if 97 \<le> n \<and> n \<le> 122 then char_of (n - 32) else c)"

definition upper :: "string \<Rightarrow> string" where
  "upper s = map upper_char s"

text \<open>\<^verbatim>\<open>sum(...)\<close> folds \<^verbatim>\<open>+\<close> from the left, starting at 0.\<close>

definition py_sum :: "rat list \<Rightarrow> rat" where
  "py_sum xs = foldl (\<lambda>acc x. acc + x) 0 xs"

section \<open>Data model\<close>

text \<open>
  Modelled from the spec: \<^verbatim>\<open>app/models/database.py\<close> is not among the sources, so the ORM
  classes \<open>User\<close> and \<open>PortfolioHolding\<close> are taken from section 3 of the specification and
  from the attributes the services read and write (\<^verbatim>\<open>user.id\<close>, and the seven columns of a
  holding).  The field \<^verbatim>\<open>id\<close> is written \<open>id'\<close>.
\<close>

record User =
  id' :: int
  username :: string

record PortfolioHolding =
  id' :: int
  user_id :: int
  symbol :: string
  company_name :: string
  shares :: int
  purchase_price :: rat
  purchased_at :: int

text \<open>The schemas of \<^verbatim>\<open>app/models/schemas.py\<close>.\<close>

record PortfolioHoldingCreate =
  symbol :: string
  shares :: int
  purchase_price :: rat

record PortfolioHoldingResponse =
  id' :: int
  symbol :: string
  company_name :: string
  shares :: int
  purchase_price :: rat
  current_price :: rat
  total_value :: rat
  gain_loss :: rat
  gain_loss_percent :: rat
  purchased_at :: int

record PortfolioSummary =
  total_invested :: rat
  current_value :: rat
  total_gain_loss :: rat
  total_gain_loss_percent :: rat
  holdings :: "PortfolioHoldingResponse list"

text \<open>
  \<^verbatim>\<open>PortfolioHoldingCreate\<close> declares \<^verbatim>\<open>shares: int = Field(..., gt=0)\<close> and
  \<^verbatim>\<open>purchase_price: float = Field(..., gt=0)\<close>: constructing the schema from a request body
  fails unless both are positive.
\<close>

definition parse_PortfolioHoldingCreate ::
  "string \<Rightarrow> int \<Rightarrow> rat \<Rightarrow> error + PortfolioHoldingCreate" where
  "parse_PortfolioHoldingCreate ticker n price =
     (if n > 0 \<and> price > 0
      then Inr \<lparr>PortfolioHoldingCreate.symbol = ticker,
                PortfolioHoldingCreate.shares = n,
                PortfolioHoldingCreate.purchase_price = price\<rparr>
      else Inl RequestValidationError)"

section \<open>The database session\<close>

text \<open>
  Modelled from the spec: the table of holdings and its primary key live in the missing
  \<^verbatim>\<open>database.py\<close>.  The session is the list of stored rows in insertion order together with
  the next primary key the table hands out (``id: unique, assigned at creation'').
  \<^verbatim>\<open>filter(...).first()\<close> is the first matching row, \<^verbatim>\<open>filter(...).all()\<close> all of them;
  \<^verbatim>\<open>db.delete(holding)\<close> and the flush of a changed attribute address the row by its primary
  key, as the SQL they emit does.
\<close>

record Session =
  rows :: "PortfolioHolding list"
  next_id :: int

definition query_first :: "Session \<Rightarrow> int \<Rightarrow> int \<Rightarrow> PortfolioHolding option" where
  "query_first db holding_id uid =
     find (\<lambda>r. PortfolioHolding.id' r = holding_id \<and> user_id r = uid) (rows db)"

definition query_all :: "Session \<Rightarrow> int \<Rightarrow> PortfolioHolding list" where
  "query_all db uid = filter (\<lambda>r. user_id r = uid) (rows db)"

definition db_add :: "Session \<Rightarrow> PortfolioHolding \<Rightarrow> Session" where
  "db_add db holding = db\<lparr>rows := rows db @ [holding], next_id := next_id db + 1\<rparr>"

definition db_delete :: "Session \<Rightarrow> PortfolioHolding \<Rightarrow> Session" where
  "db_delete db holding =
     db\<lparr>rows := filter (\<lambda>r. PortfolioHolding.id' r \<noteq> PortfolioHolding.id' holding) (rows db)\<rparr>"

definition db_set_shares :: "Session \<Rightarrow> PortfolioHolding \<Rightarrow> int \<Rightarrow> Session" where
  "db_set_shares db holding n =
     db\<lparr>rows := map (\<lambda>r. if PortfolioHolding.id' r = PortfolioHolding.id' holding
                          then r\<lparr>PortfolioHolding.shares := n\<rparr> else r) (rows db)\<rparr>"

section \<open>The market-data client (\<^verbatim>\<open>fmp_service.py\<close>)\<close>

text \<open>
  The HTTP client is outside the repository.  What \<^verbatim>\<open>client.get\<close>, \<^verbatim>\<open>raise_for_status\<close> and
  \<^verbatim>\<open>response.json()\<close> yield for a symbol is a parameter: \<open>None\<close> when one of them raises,
  otherwise the decoded JSON list.  The answer may differ from one request to the next, so
  it also depends on the number of requests sent so far; every call of the service sends
  exactly one request.  A quote is a JSON object whose fields hold any decoded value (the
  price may be a number, \<^verbatim>\<open>null\<close>, a string, ...); a profile is one with string fields.
\<close>

type_synonym quote = "(string \<times> json) list"
type_synonym profile = "(string \<times> string) list"

record FMPService =
  quote_json :: "nat \<Rightarrow> string \<Rightarrow> quote list option"
  profile_json :: "nat \<Rightarrow> string \<Rightarrow> profile list option"

definition get_stock_quote ::
  "FMPService \<Rightarrow> nat \<Rightarrow> string \<Rightarrow> (error + quote option) \<times> nat" where
  "get_stock_quote fmp t ticker =
     (case quote_json fmp t ticker of
        None \<Rightarrow> (Inl HTTPStatusError, Suc t)
      | Some data \<Rightarrow> (Inr (case data of [] \<Rightarrow> None | d # _ \<Rightarrow> Some d), Suc t))"

definition get_company_profile ::
  "FMPService \<Rightarrow> nat \<Rightarrow> string \<Rightarrow> (error + profile option) \<times> nat" where
  "get_company_profile fmp t ticker =
     (case profile_json fmp t ticker of
        None \<Rightarrow> (Inl HTTPStatusError, Suc t)
      | Some data \<Rightarrow> (Inr (case data of [] \<Rightarrow> None | d # _ \<Rightarrow> Some d), Suc t))"

section \<open>The portfolio service (\<^verbatim>\<open>portfolio_service.py\<close>)\<close>

subsection \<open>\<^verbatim>\<open>add_holding\<close>\<close>

text \<open>
  The session, the count of requests sent to the provider and the clock are passed in; the
  new session and count are returned.  \<open>now\<close> is the timestamp the table's default gives
  \<^verbatim>\<open>purchased_at\<close> at the commit.  An exception leaves the session as it was.
\<close>

definition add_holding ::
  "FMPService \<Rightarrow> int \<Rightarrow> Session \<Rightarrow> nat \<Rightarrow> User \<Rightarrow> PortfolioHoldingCreate
     \<Rightarrow> (error + PortfolioHolding) \<times> Session \<times> nat" where
  "add_holding fmp now db t user holding_data =
     (case get_company_profile fmp t (PortfolioHoldingCreate.symbol holding_data) of
        (Inl e, t') \<Rightarrow> (Inl e, db, t')
      | (Inr profile, t') \<Rightarrow>
          if \<not> truthy profile
          then (Inl (HTTPException HTTP_404_NOT_FOUND
                  (''Stock symbol '' @ [CHR 0x27] @ PortfolioHoldingCreate.symbol holding_data
                     @ [CHR 0x27] @ '' not found'')), db, t')
          else
            let company_name = dict_get (case profile of Some p \<Rightarrow> p | None \<Rightarrow> [])
                                 ''companyName'' (PortfolioHoldingCreate.symbol holding_data);
                holding = \<lparr>PortfolioHolding.id' = next_id db,
                           user_id = User.id' user,
                           PortfolioHolding.symbol = upper (PortfolioHoldingCreate.symbol holding_data),
                           PortfolioHolding.company_name = company_name,
                           PortfolioHolding.shares = PortfolioHoldingCreate.shares holding_data,
                           PortfolioHolding.purchase_price =
                             PortfolioHoldingCreate.purchase_price holding_data,
                           PortfolioHolding.purchased_at = now\<rparr>
            in (Inr holding, db_add db holding, t'))"

subsection \<open>\<^verbatim>\<open>get_holdings\<close>\<close>

text \<open>
  The body of the loop, lines 78 to 98: the valuation of one holding from its quote.
  \<^verbatim>\<open>quote.get("price", holding.purchase_price)\<close> gives the purchase price only when the key is
  missing; a price that is present is taken as it is, whatever it holds, and the arithmetic
  of lines 80 and 82 raises \<open>TypeError\<close> when it is not a number.
\<close>

definition get_holdings_entry ::
  "PortfolioHolding \<Rightarrow> quote option \<Rightarrow> error + PortfolioHoldingResponse" where
  "get_holdings_entry holding quote =
     (let current_price =
            (if truthy quote
             then dict_get (case quote of Some q \<Rightarrow> q | None \<Rightarrow> []) ''price''
                    (JNum (PortfolioHolding.purchase_price holding))
             else JNum (PortfolioHolding.purchase_price holding))
      in case number current_price of
           None \<Rightarrow> Inl TypeError
         | Some price \<Rightarrow>
            (let total_value = price * of_int (PortfolioHolding.shares holding);
                 invested = PortfolioHolding.purchase_price holding
                              * of_int (PortfolioHolding.shares holding);
                 gain_loss = total_value - invested
             in (case (if invested > 0
                       then (case truediv gain_loss invested of
                               Inl e \<Rightarrow> Inl e | Inr q \<Rightarrow> Inr (q * 100))
                       else Inr 0) of
                   Inl e \<Rightarrow> Inl e
                 | Inr percent \<Rightarrow>
                     Inr \<lparr>PortfolioHoldingResponse.id' = PortfolioHolding.id' holding,
                          PortfolioHoldingResponse.symbol = PortfolioHolding.symbol holding,
                          PortfolioHoldingResponse.company_name =
                            PortfolioHolding.company_name holding,
                          PortfolioHoldingResponse.shares = PortfolioHolding.shares holding,
                          PortfolioHoldingResponse.purchase_price =
                            PortfolioHolding.purchase_price holding,
                          current_price = price,
                          total_value = total_value,
                          gain_loss = gain_loss,
                          gain_loss_percent = percent,
                          PortfolioHoldingResponse.purchased_at =
                            PortfolioHolding.purchased_at holding\<rparr>)))"

text \<open>
  The loop over the user's rows.  There is no \<^verbatim>\<open>try\<close> in the loop: an exception of
  \<^verbatim>\<open>get_stock_quote\<close> or of the valuation ends the loop and the call.
\<close>

fun get_holdings_loop ::
  "FMPService \<Rightarrow> nat \<Rightarrow> PortfolioHolding list \<Rightarrow> PortfolioHoldingResponse list
     \<Rightarrow> (error + PortfolioHoldingResponse list) \<times> nat" where
  "get_holdings_loop fmp t [] result = (Inr result, t)"
| "get_holdings_loop fmp t (holding # rest) result =
     (case get_stock_quote fmp t (PortfolioHolding.symbol holding) of
        (Inl e, t') \<Rightarrow> (Inl e, t')
      | (Inr quote, t') \<Rightarrow>
          (case get_holdings_entry holding quote of
             Inl e \<Rightarrow> (Inl e, t')
           | Inr entry \<Rightarrow> get_holdings_loop fmp t' rest (result @ [entry])))"

definition get_holdings ::
  "FMPService \<Rightarrow> Session \<Rightarrow> nat \<Rightarrow> User
     \<Rightarrow> (error + PortfolioHoldingResponse list) \<times> nat" where
  "get_holdings fmp db t user = get_holdings_loop fmp t (query_all db (User.id' user)) []"

subsection \<open>\<^verbatim>\<open>get_portfolio_summary\<close>\<close>

definition get_portfolio_summary ::
  "FMPService \<Rightarrow> Session \<Rightarrow> nat \<Rightarrow> User \<Rightarrow> (error + PortfolioSummary) \<times> nat" where
  "get_portfolio_summary fmp db t user =
     (case get_holdings fmp db t user of
        (Inl e, t') \<Rightarrow> (Inl e, t')
      | (Inr hs, t') \<Rightarrow>
         (let total_invested =
                py_sum (map (\<lambda>h. PortfolioHoldingResponse.purchase_price h
                                   * of_int (PortfolioHoldingResponse.shares h)) hs);
              current_value = py_sum (map total_value hs);
              total_gain_loss = current_value - total_invested
          in (case (if total_invested > 0
                    then (case truediv total_gain_loss total_invested of
                            Inl e \<Rightarrow> Inl e | Inr q \<Rightarrow> Inr (q * 100))
                    else Inr 0) of
                Inl e \<Rightarrow> (Inl e, t')
              | Inr percent \<Rightarrow>
                  (Inr \<lparr>total_invested = total_invested,
                        current_value = current_value,
                        total_gain_loss = total_gain_loss,
                        total_gain_loss_percent = percent,
                        holdings = hs\<rparr>, t'))))"

subsection \<open>\<^verbatim>\<open>remove_holding\<close> and \<^verbatim>\<open>update_holding\<close>\<close>

definition remove_holding :: "Session \<Rightarrow> User \<Rightarrow> int \<Rightarrow> (error + bool) \<times> Session" where
  "remove_holding db user holding_id =
     (case query_first db holding_id (User.id' user) of
        None \<Rightarrow> (Inl (HTTPException HTTP_404_NOT_FOUND ''Holding not found''), db)
      | Some holding \<Rightarrow> (Inr True, db_delete db holding))"

definition update_holding ::
  "Session \<Rightarrow> User \<Rightarrow> int \<Rightarrow> int \<Rightarrow> (error + PortfolioHolding) \<times> Session" where
  "update_holding db user holding_id n =
     (case query_first db holding_id (User.id' user) of
        None \<Rightarrow> (Inl (HTTPException HTTP_404_NOT_FOUND ''Holding not found''), db)
      | Some holding \<Rightarrow>
          if n \<le> 0
          then (Inl (HTTPException HTTP_400_BAD_REQUEST ''Shares must be greater than 0''), db)
          else (Inr (holding\<lparr>PortfolioHolding.shares := n\<rparr>), db_set_shares db holding n))"

section \<open>The portfolio routes (\<^verbatim>\<open>routes.py\<close>)\<close>

text \<open>
  The two routes that answer with one holding value it themselves, after their own request
  to the provider: lines 278 to 295 (\<^verbatim>\<open>add_holding\<close>) and 330 to 347 (\<^verbatim>\<open>update_holding\<close>).
  The route functions carry the suffix \<open>_route\<close>, the service methods keep their names.
\<close>

definition add_holding_response ::
  "PortfolioHolding \<Rightarrow> quote option \<Rightarrow> error + PortfolioHoldingResponse" where
  "add_holding_response holding quote =
     (let current_price =
            (if truthy quote
             then dict_get (case quote of Some q \<Rightarrow> q | None \<Rightarrow> []) ''price''
                    (JNum (PortfolioHolding.purchase_price holding))
             else JNum (PortfolioHolding.purchase_price holding))
      in case number current_price of
           None \<Rightarrow> Inl TypeError
         | Some price \<Rightarrow>
            (let total_value = price * of_int (PortfolioHolding.shares holding);
                 invested = PortfolioHolding.purchase_price holding
                              * of_int (PortfolioHolding.shares holding);
                 gain_loss = total_value - invested
             in (case (if invested > 0
                       then (case truediv gain_loss invested of
                               Inl e \<Rightarrow> Inl e | Inr q \<Rightarrow> Inr (q * 100))
                       else Inr 0) of
                   Inl e \<Rightarrow> Inl e
                 | Inr percent \<Rightarrow>
                     Inr \<lparr>PortfolioHoldingResponse.id' = PortfolioHolding.id' holding,
                          PortfolioHoldingResponse.symbol = PortfolioHolding.symbol holding,
                          PortfolioHoldingResponse.company_name =
                            PortfolioHolding.company_name holding,
                          PortfolioHoldingResponse.shares = PortfolioHolding.shares holding,
                          PortfolioHoldingResponse.purchase_price =
                            PortfolioHolding.purchase_price holding,
                          current_price = price,
                          total_value = total_value,
                          gain_loss = gain_loss,
                          gain_loss_percent = percent,
                          PortfolioHoldingResponse.purchased_at =
                            PortfolioHolding.purchased_at holding\<rparr>)))"

definition update_holding_response ::
  "PortfolioHolding \<Rightarrow> quote option \<Rightarrow> error + PortfolioHoldingResponse" where
  "update_holding_response holding quote =
     (let current_price =
            (if truthy quote
             then dict_get (case quote of Some q \<Rightarrow> q | None \<Rightarrow> []) ''price''
                    (JNum (PortfolioHolding.purchase_price holding))
             else JNum (PortfolioHolding.purchase_price holding))
      in case number current_price of
           None \<Rightarrow> Inl TypeError
         | Some price \<Rightarrow>
            (let total_value = price * of_int (PortfolioHolding.shares holding);
                 invested = PortfolioHolding.purchase_price holding
                              * of_int (PortfolioHolding.shares holding);
                 gain_loss = total_value - invested
             in (case (if invested > 0
                       then (case truediv gain_loss invested of
                               Inl e \<Rightarrow> Inl e | Inr q \<Rightarrow> Inr (q * 100))
                       else Inr 0) of
                   Inl e \<Rightarrow> Inl e
                 | Inr percent \<Rightarrow>
                     Inr \<lparr>PortfolioHoldingResponse.id' = PortfolioHolding.id' holding,
                          PortfolioHoldingResponse.symbol = PortfolioHolding.symbol holding,
                          PortfolioHoldingResponse.company_name =
                            PortfolioHolding.company_name holding,
                          PortfolioHoldingResponse.shares = PortfolioHolding.shares holding,
                          PortfolioHoldingResponse.purchase_price =
                            PortfolioHolding.purchase_price holding,
                          current_price = price,
                          total_value = total_value,
                          gain_loss = gain_loss,
                          gain_loss_percent = percent,
                          PortfolioHoldingResponse.purchased_at =
                            PortfolioHolding.purchased_at holding\<rparr>)))"

definition get_portfolio ::
  "FMPService \<Rightarrow> Session \<Rightarrow> nat \<Rightarrow> User \<Rightarrow> (error + PortfolioSummary) \<times> nat" where
  "get_portfolio fmp db t current_user = get_portfolio_summary fmp db t current_user"

text \<open>
  The body of a creation request is parsed into \<^verbatim>\<open>PortfolioHoldingCreate\<close> before the route
  body runs.  The holding is committed by the service before the route asks for the quote.
\<close>

definition add_holding_route ::
  "FMPService \<Rightarrow> int \<Rightarrow> Session \<Rightarrow> nat \<Rightarrow> User \<Rightarrow> string \<Rightarrow> int \<Rightarrow> rat
     \<Rightarrow> (error + PortfolioHoldingResponse) \<times> Session \<times> nat" where
  "add_holding_route fmp now db t current_user ticker n price =
     (case parse_PortfolioHoldingCreate ticker n price of
        Inl e \<Rightarrow> (Inl e, db, t)
      | Inr holding_data \<Rightarrow>
          (case add_holding fmp now db t current_user holding_data of
             (Inl e, db', t') \<Rightarrow> (Inl e, db', t')
           | (Inr holding, db', t') \<Rightarrow>
               (case get_stock_quote fmp t' (PortfolioHolding.symbol holding) of
                  (Inl e, t'') \<Rightarrow> (Inl e, db', t'')
                | (Inr quote, t'') \<Rightarrow>
                    (case add_holding_response holding quote of
                       Inl e \<Rightarrow> (Inl e, db', t'')
                     | Inr response \<Rightarrow> (Inr response, db', t'')))))"

definition remove_holding_route :: "Session \<Rightarrow> User \<Rightarrow> int \<Rightarrow> (error + unit) \<times> Session" where
  "remove_holding_route db current_user holding_id =
     (case remove_holding db current_user holding_id of
        (Inl e, db') \<Rightarrow> (Inl e, db')
      | (Inr _, db') \<Rightarrow> (Inr (), db'))"

text \<open>The query parameter is declared \<^verbatim>\<open>shares: int = Query(..., gt=0)\<close>.\<close>

definition update_holding_route ::
  "FMPService \<Rightarrow> Session \<Rightarrow> nat \<Rightarrow> User \<Rightarrow> int \<Rightarrow> int
     \<Rightarrow> (error + PortfolioHoldingResponse) \<times> Session \<times> nat" where
  "update_holding_route fmp db t current_user holding_id n =
     (if \<not> n > 0 then (Inl RequestValidationError, db, t)
      else
        (case update_holding db current_user holding_id n of
           (Inl e, db') \<Rightarrow> (Inl e, db', t)
         | (Inr holding, db') \<Rightarrow>
             (case get_stock_quote fmp t (PortfolioHolding.symbol holding) of
                (Inl e, t') \<Rightarrow> (Inl e, db', t')
              | (Inr quote, t') \<Rightarrow>
                  (case update_holding_response holding quote of
                     Inl e \<Rightarrow> (Inl e, db', t')
                   | Inr response \<Rightarrow> (Inr response, db', t')))))"

section \<open>Reference formulas\<close>

text \<open>
  The valuation as section 4.2 of the specification words it, for a share count, a purchase
  price and a current price: total value, invested amount, gain or loss, and percent.
\<close>

definition spec_valuation :: "int \<Rightarrow> rat \<Rightarrow> rat \<Rightarrow> rat \<times> rat \<times> rat \<times> rat" where
  "spec_valuation n purchase current =
     (let tv = current * of_int n;
          invested = purchase * of_int n;
          gl = tv - invested
      in (tv, invested, gl, if invested > 0 then gl / invested * 100 else 0))"

text \<open>The response whose derived fields are that valuation at a given current price.\<close>

definition spec_response_at :: "PortfolioHolding \<Rightarrow> rat \<Rightarrow> PortfolioHoldingResponse" where
  "spec_response_at holding current =
     (case spec_valuation (PortfolioHolding.shares holding) (PortfolioHolding.purchase_price holding) current of
        (tv, invested, gl, percent) \<Rightarrow>
          \<lparr>PortfolioHoldingResponse.id' = PortfolioHolding.id' holding,
           PortfolioHoldingResponse.symbol = PortfolioHolding.symbol holding,
           PortfolioHoldingResponse.company_name = PortfolioHolding.company_name holding,
           PortfolioHoldingResponse.shares = PortfolioHolding.shares holding,
           PortfolioHoldingResponse.purchase_price = PortfolioHolding.purchase_price holding,
           current_price = current,
           total_value = tv,
           gain_loss = gl,
           gain_loss_percent = percent,
           PortfolioHoldingResponse.purchased_at = PortfolioHolding.purchased_at holding\<rparr>)"


text \<open>
  The value under the key \<^verbatim>\<open>price\<close> in the provider's answer to request number \<open>t\<close>, if the
  answer has a first object and that object has the key.
\<close>

definition quote_price :: "FMPService \<Rightarrow> nat \<Rightarrow> string \<Rightarrow> json option" where
  "quote_price fmp t ticker =
     (case quote_json fmp t ticker of
        Some (d # _) \<Rightarrow> map_of d ''price''
      | _ \<Rightarrow> None)"

text \<open>
  The current price a holding is valued at from a quote: the purchase price when there is
  no quote or no price in it, the price when it is a number, and none when the price is
  present and not a number.  \<open>listed_price\<close> is the same for the answer to request \<open>t\<close>.
\<close>

definition entry_price :: "PortfolioHolding \<Rightarrow> quote option \<Rightarrow> rat option" where
  "entry_price holding quote =
     (case quote of
        None \<Rightarrow> Some (PortfolioHolding.purchase_price holding)
      | Some d \<Rightarrow>
          (case map_of d ''price'' of
             None \<Rightarrow> Some (PortfolioHolding.purchase_price holding)
           | Some v \<Rightarrow> number v))"

definition listed_price :: "FMPService \<Rightarrow> nat \<Rightarrow> PortfolioHolding \<Rightarrow> rat option" where
  "listed_price fmp t holding =
     (case quote_price fmp t (PortfolioHolding.symbol holding) of
        None \<Rightarrow> Some (PortfolioHolding.purchase_price holding)
      | Some v \<Rightarrow> number v)"

text \<open>
  A listing sends its requests one after the other, the first at count \<open>t\<close>, and stops at
  the first exception.  \<open>all_quoted\<close> says no request raises; \<open>all_numeric\<close> says every price
  in the answers is a number; \<open>first_error\<close> is the exception that ends the listing, if one
  does; \<open>requests_sent\<close> is the count when the listing ends; \<open>spec_listing\<close> is the list of
  the responses of the holdings that have a current price, in the order of the rows.
\<close>

fun all_quoted :: "FMPService \<Rightarrow> nat \<Rightarrow> PortfolioHolding list \<Rightarrow> bool" where
  "all_quoted fmp t [] = True"
| "all_quoted fmp t (h # hs) =
     (quote_json fmp t (PortfolioHolding.symbol h) \<noteq> None \<and> all_quoted fmp (Suc t) hs)"


fun first_error :: "FMPService \<Rightarrow> nat \<Rightarrow> PortfolioHolding list \<Rightarrow> error option" where
  "first_error fmp t [] = None"
| "first_error fmp t (h # hs) =
     (if quote_json fmp t (PortfolioHolding.symbol h) = None then Some HTTPStatusError
      else if listed_price fmp t h = None then Some TypeError
      else first_error fmp (Suc t) hs)"

fun requests_sent :: "FMPService \<Rightarrow> nat \<Rightarrow> PortfolioHolding list \<Rightarrow> nat" where
  "requests_sent fmp t [] = t"
| "requests_sent fmp t (h # hs) =
     (if quote_json fmp t (PortfolioHolding.symbol h) = None \<or> listed_price fmp t h = None
      then Suc t
      else requests_sent fmp (Suc t) hs)"

fun spec_listing :: "FMPService \<Rightarrow> nat \<Rightarrow> PortfolioHolding list \<Rightarrow> PortfolioHoldingResponse list" where
  "spec_listing fmp t [] = []"
| "spec_listing fmp t (h # hs) =
     (case listed_price fmp t h of
        Some c \<Rightarrow> [spec_response_at h c]
      | None \<Rightarrow> []) @ spec_listing fmp (Suc t) hs"

section \<open>Example data\<close>

text \<open>
  Two users, a table with three holdings of the first and one of the second, and four
  behaviours of the provider: every symbol quoted; no quote for \<open>MSFT\<close> (an empty list) and
  a quote without price for \<open>TSLA\<close>; the request for \<open>MSFT\<close> raising; the price of \<open>MSFT\<close>
  being \<^verbatim>\<open>null\<close>.
\<close>

definition alice :: User where
  "alice = \<lparr>User.id' = 1, username = ''alice''\<rparr>"

definition bob :: User where
  "bob = \<lparr>User.id' = 2, username = ''bob''\<rparr>"

definition holding_A :: PortfolioHolding where
  "holding_A = \<lparr>PortfolioHolding.id' = 1, user_id = 1, PortfolioHolding.symbol = ''AAPL'',
     PortfolioHolding.company_name = ''Apple Inc.'', PortfolioHolding.shares = 10,
     PortfolioHolding.purchase_price = 100, PortfolioHolding.purchased_at = 1000\<rparr>"

definition holding_B :: PortfolioHolding where
  "holding_B = \<lparr>PortfolioHolding.id' = 2, user_id = 1, PortfolioHolding.symbol = ''MSFT'',
     PortfolioHolding.company_name = ''Microsoft'', PortfolioHolding.shares = 5,
     PortfolioHolding.purchase_price = 50, PortfolioHolding.purchased_at = 1001\<rparr>"

definition holding_C :: PortfolioHolding where
  "holding_C = \<lparr>PortfolioHolding.id' = 3, user_id = 2, PortfolioHolding.symbol = ''AAPL'',
     PortfolioHolding.company_name = ''Apple Inc.'', PortfolioHolding.shares = 7,
     PortfolioHolding.purchase_price = 90, PortfolioHolding.purchased_at = 1002\<rparr>"

definition holding_D :: PortfolioHolding where
  "holding_D = \<lparr>PortfolioHolding.id' = 4, user_id = 1, PortfolioHolding.symbol = ''TSLA'',
     PortfolioHolding.company_name = ''Tesla'', PortfolioHolding.shares = 2,
     PortfolioHolding.purchase_price = 200, PortfolioHolding.purchased_at = 1003\<rparr>"

definition example_db :: Session where
  "example_db = \<lparr>rows = [holding_A, holding_B, holding_C, holding_D], next_id = 5\<rparr>"

definition empty_db :: Session where
  "empty_db = \<lparr>rows = [], next_id = 1\<rparr>"

definition example_profiles :: "nat \<Rightarrow> string \<Rightarrow> profile list option" where
  "example_profiles t ticker =
     (if ticker = ''aapl'' then Some [[(''companyName'', ''Apple Inc.'')]] else Some [])"

definition fmp_live :: FMPService where
  "fmp_live = \<lparr>quote_json = (\<lambda>t ticker.
       if ticker = ''AAPL'' then Some [[(''price'', JNum 120)]]
       else if ticker = ''MSFT'' then Some [[(''price'', JNum 40)]]
       else Some [[(''price'', JNum 250)]]),
     profile_json = example_profiles\<rparr>"

definition fmp_partial :: FMPService where
  "fmp_partial = \<lparr>quote_json = (\<lambda>t ticker.
       if ticker = ''AAPL'' then Some [[(''price'', JNum 120)]]
       else if ticker = ''MSFT'' then Some []
       else Some [[(''volume'', JNum 1)]]),
     profile_json = example_profiles\<rparr>"

definition fmp_null :: FMPService where
  "fmp_null = \<lparr>quote_json = (\<lambda>t ticker.
       if ticker = ''AAPL'' then Some [[(''price'', JNum 120)]]
       else if ticker = ''MSFT'' then Some [[(''price'', JNull)]]
       else Some [[(''price'', JNum 250)]]),
     profile_json = example_profiles\<rparr>"

definition fmp_failing :: FMPService where
  "fmp_failing = \<lparr>quote_json = (\<lambda>t ticker.
       if ticker = ''AAPL'' then Some [[(''price'', JNum 120)]]
       else if ticker = ''MSFT'' then None
       else Some [[(''price'', JNum 250)]]),
     profile_json = example_profiles\<rparr>"

section \<open>Facts about the lookups\<close>

lemmas fixtures = alice_def bob_def holding_A_def holding_B_def holding_C_def holding_D_def
  example_db_def empty_db_def example_profiles_def fmp_live_def fmp_partial_def fmp_failing_def
  fmp_null_def

lemma query_first_None_iff:
  "query_first db holding_id uid = None \<longleftrightarrow>
     \<not> (\<exists>r \<in> set (rows db). PortfolioHolding.id' r = holding_id \<and> user_id r = uid)"
  by (auto simp: query_first_def find_None_iff)

lemma query_first_Some_match:
  "query_first db holding_id uid = Some holding \<Longrightarrow>
     PortfolioHolding.id' holding = holding_id \<and> user_id holding = uid \<and> holding \<in> set (rows db)"
  by (auto simp: query_first_def find_Some_iff)

lemma find_map_preserved:
  assumes "\<And>x. P (f x) = P x"
  shows "find P (map f xs) = map_option f (find P xs)"
  using assms by (induction xs) auto

lemma filter_map_untouched:
  assumes "\<And>x. P x \<Longrightarrow> f x = x" and "\<And>x. P (f x) = P x"
  shows "filter P (map f xs) = filter P xs"
  using assms by (induction xs) auto

section \<open>Facts about the valuation and the listing loop\<close>

lemma response_at_fields:
  "PortfolioHoldingResponse.id' (spec_response_at h c) = PortfolioHolding.id' h"
  "PortfolioHoldingResponse.symbol (spec_response_at h c) = PortfolioHolding.symbol h"
  "PortfolioHoldingResponse.company_name (spec_response_at h c) = PortfolioHolding.company_name h"
  "PortfolioHoldingResponse.shares (spec_response_at h c) = PortfolioHolding.shares h"
  "PortfolioHoldingResponse.purchase_price (spec_response_at h c) = PortfolioHolding.purchase_price h"
  "PortfolioHoldingResponse.purchased_at (spec_response_at h c) = PortfolioHolding.purchased_at h"
  "current_price (spec_response_at h c) = c"
  "total_value (spec_response_at h c) = c * of_int (PortfolioHolding.shares h)"
  "gain_loss (spec_response_at h c) =
     c * of_int (PortfolioHolding.shares h)
       - PortfolioHolding.purchase_price h * of_int (PortfolioHolding.shares h)"
  "gain_loss_percent (spec_response_at h c) =
     (if PortfolioHolding.purchase_price h * of_int (PortfolioHolding.shares h) > 0
      then (c * of_int (PortfolioHolding.shares h)
              - PortfolioHolding.purchase_price h * of_int (PortfolioHolding.shares h))
             / (PortfolioHolding.purchase_price h * of_int (PortfolioHolding.shares h)) * 100
      else 0)"
  by (simp_all add: spec_response_at_def spec_valuation_def Let_def)


lemma get_holdings_entry_eq:
  "get_holdings_entry holding quote =
     (case entry_price holding quote of
        None \<Rightarrow> Inl TypeError
      | Some c \<Rightarrow> Inr (spec_response_at holding c))"
proof (cases quote)
  case None
  then show ?thesis
    by (simp add: get_holdings_entry_def entry_price_def truthy_def truediv_def Let_def
          spec_response_at_def spec_valuation_def)
next
  case (Some d)
  show ?thesis
  proof (cases "map_of d ''price''")
    case None
    then show ?thesis
      using Some
      by (simp add: get_holdings_entry_def entry_price_def truthy_def dict_get_def truediv_def
            Let_def spec_response_at_def spec_valuation_def)
  next
    case (Some v)
    then have "d \<noteq> []" by auto
    then show ?thesis
      using Some \<open>quote = Some d\<close>
      by (cases "number v")
         (simp_all add: get_holdings_entry_def entry_price_def truthy_def dict_get_def
            truediv_def Let_def spec_response_at_def spec_valuation_def)
  qed
qed

lemma add_holding_response_eq:
  "add_holding_response holding quote = get_holdings_entry holding quote"
  by (simp add: add_holding_response_def get_holdings_entry_def)

lemma update_holding_response_eq:
  "update_holding_response holding quote = get_holdings_entry holding quote"
  by (simp add: update_holding_response_def get_holdings_entry_def)

lemma get_holdings_entry_cases:
  "get_holdings_entry holding quote = Inl TypeError \<or>
   (\<exists>c. get_holdings_entry holding quote = Inr (spec_response_at holding c))"
  by (cases "entry_price holding quote") (auto simp: get_holdings_entry_eq)

lemma entry_price_first_quote:
  "entry_price h (case data of [] \<Rightarrow> None | d # _ \<Rightarrow> Some d) =
     (case (case Some data of Some (d # _) \<Rightarrow> map_of d ''price'' | _ \<Rightarrow> None) of
        None \<Rightarrow> Some (PortfolioHolding.purchase_price h)
      | Some v \<Rightarrow> number v)"
  by (cases data) (simp_all add: entry_price_def)

lemma get_holdings_loop_eq:
  "get_holdings_loop fmp t hs acc =
     (case first_error fmp t hs of
        None \<Rightarrow> Inr (acc @ spec_listing fmp t hs)
      | Some e \<Rightarrow> Inl e,
      requests_sent fmp t hs)"
proof (induction hs arbitrary: t acc)
  case Nil
  then show ?case by simp
next
  case (Cons h hs)
  show ?case
  proof (cases "quote_json fmp t (PortfolioHolding.symbol h)")
    case None
    then show ?thesis by (simp add: get_stock_quote_def)
  next
    case (Some data)
    then have lp: "listed_price fmp t h
        = entry_price h (case data of [] \<Rightarrow> None | d # _ \<Rightarrow> Some d)"
      by (simp add: listed_price_def quote_price_def entry_price_first_quote)
    show ?thesis
    proof (cases "listed_price fmp t h")
      case None
      then show ?thesis
        using Some lp by (simp add: get_stock_quote_def get_holdings_entry_eq)
    next
      case (Some c)
      then show ?thesis
        using \<open>quote_json fmp t (PortfolioHolding.symbol h) = Some data\<close> lp
        by (simp add: get_stock_quote_def get_holdings_entry_eq Cons.IH split: option.splits)
    qed
  qed
qed


lemma first_error_not_division:
  "first_error fmp t hs \<noteq> Some ZeroDivisionError"
  by (induction hs arbitrary: t) auto




lemma listing_total_value:
  "r \<in> set (spec_listing fmp t hs) \<Longrightarrow>
     total_value r = current_price r * of_int (PortfolioHoldingResponse.shares r)"
  by (induction hs arbitrary: t)
     (auto simp: response_at_fields split: option.splits)

lemma py_sum_eq: "py_sum xs = sum_list xs"
proof -
  have "foldl (\<lambda>acc x. acc + x) a xs = a + sum_list xs" for a
    by (induction xs arbitrary: a) (simp_all add: add.assoc)
  then show ?thesis by (simp add: py_sum_def)
qed

lemma get_portfolio_summary_eq:
  "get_portfolio_summary fmp db t user =
     (case get_holdings fmp db t user of
        (Inl e, t') \<Rightarrow> (Inl e, t')
      | (Inr hs, t') \<Rightarrow>
          (Inr \<lparr>total_invested =
                  sum_list (map (\<lambda>h. PortfolioHoldingResponse.purchase_price h
                                   * of_int (PortfolioHoldingResponse.shares h)) hs),
                current_value = sum_list (map total_value hs),
                total_gain_loss =
                  sum_list (map total_value hs)
                    - sum_list (map (\<lambda>h. PortfolioHoldingResponse.purchase_price h
                                   * of_int (PortfolioHoldingResponse.shares h)) hs),
                total_gain_loss_percent =
                  (if sum_list (map (\<lambda>h. PortfolioHoldingResponse.purchase_price h
                                   * of_int (PortfolioHoldingResponse.shares h)) hs) > 0
                   then (sum_list (map total_value hs)
                          - sum_list (map (\<lambda>h. PortfolioHoldingResponse.purchase_price h
                                   * of_int (PortfolioHoldingResponse.shares h)) hs))
                        / sum_list (map (\<lambda>h. PortfolioHoldingResponse.purchase_price h
                                   * of_int (PortfolioHoldingResponse.shares h)) hs) * 100
                   else 0),
                holdings = hs\<rparr>, t'))"
  by (simp add: get_portfolio_summary_def py_sum_eq Let_def truediv_def
        split: prod.splits sum.splits)

lemma get_holdings_Inr:
  assumes "get_holdings fmp db t user = (Inr hs, t')"
  shows "hs = spec_listing fmp t (query_all db (User.id' user))"
  using assms by (simp add: get_holdings_def get_holdings_loop_eq split: option.splits)

lemma get_holdings_Inl:
  assumes "get_holdings fmp db t user = (Inl e, t')"
  shows "e \<noteq> ZeroDivisionError"
  using assms first_error_not_division [of fmp t "query_all db (User.id' user)"]
  by (auto simp: get_holdings_def get_holdings_loop_eq split: option.splits)

text \<open>
  The example of section 8 of the specification: 10 shares bought at 100 and quoted at 120,
  5 shares bought at 50 and quoted at 40.
\<close>

lemma spec_example_listing:
  "get_holdings fmp_live \<lparr>rows = [holding_A, holding_B], next_id = 3\<rparr> 0 alice
     = (Inr [spec_response_at holding_A 120, spec_response_at holding_B 40], 2)"
  by (simp add: get_holdings_def get_holdings_loop_eq query_all_def quote_price_def
        listed_price_def fixtures)

lemma spec_example_summary:
  "get_portfolio_summary fmp_live \<lparr>rows = [holding_A, holding_B], next_id = 3\<rparr> 0 alice
     = (Inr \<lparr>total_invested = 1250, current_value = 1400, total_gain_loss = 150,
             total_gain_loss_percent = 12,
             holdings = [spec_response_at holding_A 120, spec_response_at holding_B 40]\<rparr>, 2)"
  by (simp add: get_portfolio_summary_eq spec_example_listing response_at_fields)
     (simp add: fixtures)

lemma get_holdings_entry_zero_invested:
  assumes "PortfolioHolding.purchase_price h * of_int (PortfolioHolding.shares h) = 0"
    and "entry_price h quote = Some c"
  shows "\<exists>r. get_holdings_entry h quote = Inr r \<and> gain_loss_percent r = 0"
proof -
  have "get_holdings_entry h quote = Inr (spec_response_at h c)"
    using assms(2) by (simp add: get_holdings_entry_eq)
  moreover have "gain_loss_percent (spec_response_at h c) = 0"
    using assms(1) by (simp add: response_at_fields)
  ultimately show ?thesis by blast
qed

lemma get_holdings_entry_zero_invested_cases:
  assumes "PortfolioHolding.purchase_price h * of_int (PortfolioHolding.shares h) = 0"
  shows "get_holdings_entry h quote = Inl TypeError \<or>
         (\<exists>r. get_holdings_entry h quote = Inr r \<and> gain_loss_percent r = 0)"
proof (cases "entry_price h quote")
  case None
  then show ?thesis by (simp add: get_holdings_entry_eq)
next
  case (Some c)
  with assms show ?thesis
    using get_holdings_entry_zero_invested by blast
qed

lemma get_holdings_empty:
  "query_all db (User.id' user) = [] \<Longrightarrow> get_holdings fmp db t user = (Inr [], t)"
  by (simp add: get_holdings_def)

lemma upper_aapl: "upper ''aapl'' = ''AAPL''"
  by code_simp

section \<open>Updating the share count\<close>

text \<open>
  Claim C3.  When the holding is found for the caller and the new share count is zero or
  negative, \<open>update_holding\<close> raises the 400 exception and the session is the one it was
  given: the row is neither changed nor deleted, and the same lookup still finds it.
\<close>

theorem update_holding_rejects_nonpositive:
  assumes "query_first db holding_id (User.id' user) = Some holding" and "n \<le> 0"
  shows "update_holding db user holding_id n =
           (Inl (HTTPException HTTP_400_BAD_REQUEST ''Shares must be greater than 0''), db) \<and>
         query_first (snd (update_holding db user holding_id n)) holding_id (User.id' user)
           = Some holding"
  using assms by (simp add: update_holding_def)

theorem update_holding_rejects_nonpositive_witness:
  "query_first example_db 1 (User.id' alice) = Some holding_A \<and>
   update_holding example_db alice 1 0 =
     (Inl (HTTPException HTTP_400_BAD_REQUEST ''Shares must be greater than 0''), example_db) \<and>
   update_holding example_db alice 1 (- 5) =
     (Inl (HTTPException HTTP_400_BAD_REQUEST ''Shares must be greater than 0''), example_db)"
proof -
  have h: "query_first example_db 1 (User.id' alice) = Some holding_A"
    by (simp add: fixtures query_first_def)
  show ?thesis
    using h update_holding_rejects_nonpositive [OF h, of 0]
      update_holding_rejects_nonpositive [OF h, of "- 5"]
    by simp
qed

text \<open>
  Claim C10.  The lookup by holding id and owner comes first: when no row has both the
  given id and the caller as owner, \<open>update_holding\<close> raises the 404 exception for every
  share count, zero and negative ones included, so the 400 exception is never the answer
  to a caller who does not own the holding.
\<close>

theorem update_holding_lookup_first:
  assumes "\<forall>r \<in> set (rows db). \<not> (PortfolioHolding.id' r = holding_id \<and> user_id r = User.id' user)"
  shows "update_holding db user holding_id n =
           (Inl (HTTPException HTTP_404_NOT_FOUND ''Holding not found''), db)"
proof -
  from assms have "query_first db holding_id (User.id' user) = None"
    by (simp add: query_first_None_iff)
  then show ?thesis by (simp add: update_holding_def)
qed

theorem update_holding_lookup_first_witness:
  "update_holding example_db bob 1 0 =
     (Inl (HTTPException HTTP_404_NOT_FOUND ''Holding not found''), example_db) \<and>
   update_holding example_db bob 99 (- 5) =
     (Inl (HTTPException HTTP_404_NOT_FOUND ''Holding not found''), example_db)"
proof -
  have h1: "\<forall>r \<in> set (rows example_db). \<not> (PortfolioHolding.id' r = 1 \<and> user_id r = User.id' bob)"
    by (simp add: fixtures)
  have h2: "\<forall>r \<in> set (rows example_db). \<not> (PortfolioHolding.id' r = 99 \<and> user_id r = User.id' bob)"
    by (simp add: fixtures)
  show ?thesis
    using update_holding_lookup_first [OF h1, of 0] update_holding_lookup_first [OF h2, of "- 5"]
    by simp
qed

text \<open>
  Claim C9.  A successful \<open>update_holding\<close> found the caller's holding, was given a positive
  share count, and returns that holding with the share count replaced and every other
  attribute (purchase price, company name, symbol, owner, id, creation timestamp) as stored
  before.  The stored row is the returned one; with the share counts blanked the table is
  the same as before, rows with another id are untouched, and so is the next id.
\<close>

theorem update_holding_frame:
  assumes "update_holding db user holding_id n = (Inr holding', db')"
  shows "\<exists>holding. query_first db holding_id (User.id' user) = Some holding \<and> n > 0 \<and>
           holding' = holding\<lparr>PortfolioHolding.shares := n\<rparr> \<and>
           PortfolioHolding.shares holding' = n \<and>
           PortfolioHolding.purchase_price holding' = PortfolioHolding.purchase_price holding \<and>
           PortfolioHolding.company_name holding' = PortfolioHolding.company_name holding \<and>
           PortfolioHolding.symbol holding' = PortfolioHolding.symbol holding \<and>
           user_id holding' = user_id holding \<and>
           PortfolioHolding.id' holding' = PortfolioHolding.id' holding \<and>
           PortfolioHolding.purchased_at holding' = PortfolioHolding.purchased_at holding \<and>
           query_first db' holding_id (User.id' user) = Some holding' \<and>
           map (\<lambda>r. r\<lparr>PortfolioHolding.shares := 0\<rparr>) (rows db')
             = map (\<lambda>r. r\<lparr>PortfolioHolding.shares := 0\<rparr>) (rows db) \<and>
           filter (\<lambda>r. PortfolioHolding.id' r \<noteq> holding_id) (rows db')
             = filter (\<lambda>r. PortfolioHolding.id' r \<noteq> holding_id) (rows db) \<and>
           next_id db' = next_id db"
proof -
  from assms obtain holding where
    q: "query_first db holding_id (User.id' user) = Some holding"
    by (auto simp: update_holding_def split: option.splits)
  from assms q have pos: "n > 0" and h': "holding' = holding\<lparr>PortfolioHolding.shares := n\<rparr>"
    and d': "db' = db_set_shares db holding n"
    by (auto simp: update_holding_def split: if_splits)
  from q have idh: "PortfolioHolding.id' holding = holding_id"
    by (simp add: query_first_Some_match)
  let ?f = "\<lambda>r. if PortfolioHolding.id' r = holding_id then r\<lparr>PortfolioHolding.shares := n\<rparr> else r"
  have rows': "rows db' = map ?f (rows db)"
    by (simp add: d' db_set_shares_def idh)
  have "find (\<lambda>r. PortfolioHolding.id' r = holding_id \<and> user_id r = User.id' user) (map ?f (rows db))
      = map_option ?f (find (\<lambda>r. PortfolioHolding.id' r = holding_id \<and> user_id r = User.id' user) (rows db))"
    by (rule find_map_preserved) simp
  then have q': "query_first db' holding_id (User.id' user) = Some holding'"
    using q idh by (simp add: query_first_def rows' h')
  have erase: "map (\<lambda>r. r\<lparr>PortfolioHolding.shares := 0\<rparr>) (rows db')
      = map (\<lambda>r. r\<lparr>PortfolioHolding.shares := 0\<rparr>) (rows db)"
    by (simp add: rows')
  have others: "filter (\<lambda>r. PortfolioHolding.id' r \<noteq> holding_id) (rows db')
      = filter (\<lambda>r. PortfolioHolding.id' r \<noteq> holding_id) (rows db)"
    unfolding rows' by (rule filter_map_untouched) simp_all
  have nid: "next_id db' = next_id db"
    by (simp add: d' db_set_shares_def)
  show ?thesis
    using q pos h' q' erase others nid by simp
qed

theorem update_holding_frame_witness:
  "update_holding example_db alice 1 20
     = (Inr (holding_A\<lparr>PortfolioHolding.shares := 20\<rparr>),
        \<lparr>rows = [holding_A\<lparr>PortfolioHolding.shares := 20\<rparr>, holding_B, holding_C, holding_D],
         next_id = 5\<rparr>) \<and>
   (\<exists>holding. query_first example_db 1 (User.id' alice) = Some holding \<and>
      PortfolioHolding.purchase_price (holding_A\<lparr>PortfolioHolding.shares := 20\<rparr>)
        = PortfolioHolding.purchase_price holding)"
proof -
  have u: "update_holding example_db alice 1 20
     = (Inr (holding_A\<lparr>PortfolioHolding.shares := 20\<rparr>),
        \<lparr>rows = [holding_A\<lparr>PortfolioHolding.shares := 20\<rparr>, holding_B, holding_C, holding_D],
         next_id = 5\<rparr>)"
    by (simp add: fixtures update_holding_def query_first_def db_set_shares_def)
  from update_holding_frame [OF u] show ?thesis
    using u by blast
qed

section \<open>Ownership\<close>

text \<open>
  Claim C4.  \<open>remove_holding\<close> and \<open>update_holding\<close> look the holding up by id and owner
  together.  Take one request (a caller and a holding id) against two tables: in the first
  no row has the id, in the second a row has it and every row with that id belongs to
  someone else.  Both operations raise the same 404 exception in both, so the caller cannot
  tell the two apart; the second table is returned as it was, and the owner's own lookup
  and listing still find the holding.
\<close>

theorem not_owned_is_not_found:
  assumes absent: "\<forall>r \<in> set (rows db1). PortfolioHolding.id' r \<noteq> holding_id"
    and other: "other \<in> set (rows db2)" "PortfolioHolding.id' other = holding_id"
    and foreign: "\<forall>r \<in> set (rows db2). PortfolioHolding.id' r = holding_id \<longrightarrow> user_id r \<noteq> User.id' user"
  shows "remove_holding db1 user holding_id =
           (Inl (HTTPException HTTP_404_NOT_FOUND ''Holding not found''), db1) \<and>
         remove_holding db2 user holding_id =
           (Inl (HTTPException HTTP_404_NOT_FOUND ''Holding not found''), db2) \<and>
         update_holding db1 user holding_id n =
           (Inl (HTTPException HTTP_404_NOT_FOUND ''Holding not found''), db1) \<and>
         update_holding db2 user holding_id n =
           (Inl (HTTPException HTTP_404_NOT_FOUND ''Holding not found''), db2) \<and>
         fst (remove_holding db1 user holding_id) = fst (remove_holding db2 user holding_id) \<and>
         fst (update_holding db1 user holding_id n) = fst (update_holding db2 user holding_id n) \<and>
         other \<in> set (rows (snd (remove_holding db2 user holding_id))) \<and>
         query_first (snd (remove_holding db2 user holding_id)) holding_id (user_id other) \<noteq> None \<and>
         query_first (snd (remove_holding db2 user holding_id)) holding_id (user_id other)
           = query_first db2 holding_id (user_id other) \<and>
         query_all (snd (remove_holding db2 user holding_id)) (user_id other)
           = query_all db2 (user_id other)"
proof -
  from absent have n1: "query_first db1 holding_id (User.id' user) = None"
    by (auto simp: query_first_None_iff)
  from foreign have n2: "query_first db2 holding_id (User.id' user) = None"
    by (auto simp: query_first_None_iff)
  from other have s: "query_first db2 holding_id (user_id other) \<noteq> None"
    by (auto simp: query_first_None_iff)
  have r1: "remove_holding db1 user holding_id =
      (Inl (HTTPException HTTP_404_NOT_FOUND ''Holding not found''), db1)"
    using n1 by (simp add: remove_holding_def)
  have r2: "remove_holding db2 user holding_id =
      (Inl (HTTPException HTTP_404_NOT_FOUND ''Holding not found''), db2)"
    using n2 by (simp add: remove_holding_def)
  have u1: "update_holding db1 user holding_id n =
      (Inl (HTTPException HTTP_404_NOT_FOUND ''Holding not found''), db1)"
    using n1 by (simp add: update_holding_def)
  have u2: "update_holding db2 user holding_id n =
      (Inl (HTTPException HTTP_404_NOT_FOUND ''Holding not found''), db2)"
    using n2 by (simp add: update_holding_def)
  show ?thesis
    using other(1) s by (simp add: r1 r2 u1 u2)
qed

theorem not_owned_is_not_found_witness:
  "fst (remove_holding empty_db bob 1) = fst (remove_holding example_db bob 1) \<and>
   fst (update_holding empty_db bob 1 0) = fst (update_holding example_db bob 1 0) \<and>
   snd (remove_holding example_db bob 1) = example_db \<and>
   fst (remove_holding example_db bob 1)
     = Inl (HTTPException HTTP_404_NOT_FOUND ''Holding not found'') \<and>
   query_first (snd (remove_holding example_db bob 1)) 1 (User.id' alice) = Some holding_A"
proof -
  have a: "\<forall>r \<in> set (rows empty_db). PortfolioHolding.id' r \<noteq> 1"
    by (simp add: fixtures)
  have o: "holding_A \<in> set (rows example_db)" "PortfolioHolding.id' holding_A = 1"
    by (simp_all add: fixtures)
  have f: "\<forall>r \<in> set (rows example_db). PortfolioHolding.id' r = 1 \<longrightarrow> user_id r \<noteq> User.id' bob"
    by (simp add: fixtures)
  have q: "query_first example_db 1 (User.id' alice) = Some holding_A"
    by (simp add: fixtures query_first_def)
  have ua: "user_id holding_A = User.id' alice"
    by (simp add: fixtures)
  show ?thesis
    using not_owned_is_not_found [OF a o f, of 0] q ua by simp
qed

section \<open>Creating a holding\<close>

text \<open>
  Claim C5.  When \<open>get_company_profile\<close> returns nothing for the symbol (\<^verbatim>\<open>None\<close> or an empty
  object), \<open>add_holding\<close> raises the 404 exception naming the symbol and the session is
  unchanged: no row is added and the user's row count is what it was.
\<close>

theorem add_holding_unresolved_symbol:
  assumes "get_company_profile fmp t (PortfolioHoldingCreate.symbol holding_data) = (Inr profile, t')"
    and "\<not> truthy profile"
  shows "add_holding fmp now db t user holding_data =
           (Inl (HTTPException HTTP_404_NOT_FOUND
              (''Stock symbol '' @ [CHR 0x27] @ PortfolioHoldingCreate.symbol holding_data
                 @ [CHR 0x27] @ '' not found'')), db, t') \<and>
         length (query_all (fst (snd (add_holding fmp now db t user holding_data))) (User.id' user))
           = length (query_all db (User.id' user)) \<and>
         rows (fst (snd (add_holding fmp now db t user holding_data))) = rows db"
  using assms by (simp add: add_holding_def)

theorem add_holding_unresolved_symbol_witness:
  "add_holding fmp_live 77 example_db 0 alice
      \<lparr>PortfolioHoldingCreate.symbol = ''zzz'', PortfolioHoldingCreate.shares = 3,
       PortfolioHoldingCreate.purchase_price = 1\<rparr>
     = (Inl (HTTPException HTTP_404_NOT_FOUND (''Stock symbol '' @ [CHR 0x27] @ ''zzz'' @ [CHR 0x27] @ '' not found'')),
        example_db, 1)"
proof -
  have p: "get_company_profile fmp_live 0 (PortfolioHoldingCreate.symbol
      \<lparr>PortfolioHoldingCreate.symbol = ''zzz'', PortfolioHoldingCreate.shares = 3,
       PortfolioHoldingCreate.purchase_price = 1\<rparr>) = (Inr None, 1)"
    by (simp add: fixtures get_company_profile_def)
  have n: "\<not> truthy (None :: profile option)"
    by (simp add: truthy_def)
  show ?thesis
    using add_holding_unresolved_symbol [OF p n, of 77 example_db alice] by simp
qed

section \<open>Valuation\<close>

text \<open>
  Claim C8.  The valuation written out in the creation route, in the update route and in
  the listing loop is one function of the holding and the quote: the three definitions
  agree on every input.  For a share count, a purchase price and a quoted price \<open>c\<close> each
  gives total value \<open>c * shares\<close>, invested \<open>purchase_price * shares\<close>, gain or loss their
  difference, and percent \<open>gain_loss / invested * 100\<close> when invested is positive and 0
  otherwise, which is the valuation of section 4.2.
\<close>

theorem valuation_same_at_three_sites:
  "add_holding_response h quote = get_holdings_entry h quote \<and>
   update_holding_response h quote = get_holdings_entry h quote \<and>
   get_holdings_entry h (Some [(''price'', JNum c)]) =
     Inr \<lparr>PortfolioHoldingResponse.id' = PortfolioHolding.id' h,
          PortfolioHoldingResponse.symbol = PortfolioHolding.symbol h,
          PortfolioHoldingResponse.company_name = PortfolioHolding.company_name h,
          PortfolioHoldingResponse.shares = PortfolioHolding.shares h,
          PortfolioHoldingResponse.purchase_price = PortfolioHolding.purchase_price h,
          current_price = c,
          total_value = c * of_int (PortfolioHolding.shares h),
          gain_loss = c * of_int (PortfolioHolding.shares h)
                        - PortfolioHolding.purchase_price h * of_int (PortfolioHolding.shares h),
          gain_loss_percent =
            (if PortfolioHolding.purchase_price h * of_int (PortfolioHolding.shares h) > 0
             then (c * of_int (PortfolioHolding.shares h)
                     - PortfolioHolding.purchase_price h * of_int (PortfolioHolding.shares h))
                    / (PortfolioHolding.purchase_price h * of_int (PortfolioHolding.shares h)) * 100
             else 0),
          PortfolioHoldingResponse.purchased_at = PortfolioHolding.purchased_at h\<rparr> \<and>
   get_holdings_entry h (Some [(''price'', JNum c)]) = Inr (spec_response_at h c) \<and>
   add_holding_response h (Some [(''price'', JNum c)]) = Inr (spec_response_at h c) \<and>
   update_holding_response h (Some [(''price'', JNum c)]) = Inr (spec_response_at h c) \<and>
   (total_value (spec_response_at h c),
    PortfolioHoldingResponse.purchase_price (spec_response_at h c)
      * of_int (PortfolioHoldingResponse.shares (spec_response_at h c)),
    gain_loss (spec_response_at h c),
    gain_loss_percent (spec_response_at h c))
     = spec_valuation (PortfolioHolding.shares h) (PortfolioHolding.purchase_price h) c"
proof -
  have e: "get_holdings_entry h (Some [(''price'', JNum c)]) = Inr (spec_response_at h c)"
    by (simp add: get_holdings_entry_eq entry_price_def)
  have r: "spec_response_at h c =
     \<lparr>PortfolioHoldingResponse.id' = PortfolioHolding.id' h,
          PortfolioHoldingResponse.symbol = PortfolioHolding.symbol h,
          PortfolioHoldingResponse.company_name = PortfolioHolding.company_name h,
          PortfolioHoldingResponse.shares = PortfolioHolding.shares h,
          PortfolioHoldingResponse.purchase_price = PortfolioHolding.purchase_price h,
          current_price = c,
          total_value = c * of_int (PortfolioHolding.shares h),
          gain_loss = c * of_int (PortfolioHolding.shares h)
                        - PortfolioHolding.purchase_price h * of_int (PortfolioHolding.shares h),
          gain_loss_percent =
            (if PortfolioHolding.purchase_price h * of_int (PortfolioHolding.shares h) > 0
             then (c * of_int (PortfolioHolding.shares h)
                     - PortfolioHolding.purchase_price h * of_int (PortfolioHolding.shares h))
                    / (PortfolioHolding.purchase_price h * of_int (PortfolioHolding.shares h)) * 100
             else 0),
          PortfolioHoldingResponse.purchased_at = PortfolioHolding.purchased_at h\<rparr>"
    by (simp add: spec_response_at_def spec_valuation_def Let_def)
  have v: "(total_value (spec_response_at h c),
    PortfolioHoldingResponse.purchase_price (spec_response_at h c)
      * of_int (PortfolioHoldingResponse.shares (spec_response_at h c)),
    gain_loss (spec_response_at h c),
    gain_loss_percent (spec_response_at h c))
     = spec_valuation (PortfolioHolding.shares h) (PortfolioHolding.purchase_price h) c"
    by (simp add: response_at_fields spec_valuation_def Let_def)
  show ?thesis
    using e r v by (simp only: add_holding_response_eq update_holding_response_eq simp_thms)
qed

section \<open>The summary\<close>

text \<open>
  Claim C6.  \<open>get_portfolio_summary\<close> is \<open>get_holdings\<close> followed by the aggregate
  formulas.  When the listing raises, the summary raises the same exception.  Otherwise the
  summary carries that very listing, made by the same requests (the request count after the
  summary is the one after the listing); its total invested is the sum of purchase price
  times shares over the listed holdings, its current value the sum of their total values,
  which is the sum of current price times shares, and its total gain or loss the difference.
\<close>

theorem summary_from_listing:
  "(\<forall>e t'. get_holdings fmp db t user = (Inl e, t') \<longrightarrow>
        get_portfolio_summary fmp db t user = (Inl e, t')) \<and>
   (\<forall>hs t'. get_holdings fmp db t user = (Inr hs, t') \<longrightarrow>
      (\<exists>s. get_portfolio_summary fmp db t user = (Inr s, t') \<and>
           holdings s = hs \<and>
           total_invested s =
             (\<Sum>h\<leftarrow>hs. PortfolioHoldingResponse.purchase_price h
                        * of_int (PortfolioHoldingResponse.shares h)) \<and>
           current_value s = (\<Sum>h\<leftarrow>hs. total_value h) \<and>
           current_value s =
             (\<Sum>h\<leftarrow>hs. current_price h * of_int (PortfolioHoldingResponse.shares h)) \<and>
           total_gain_loss s = current_value s - total_invested s))"
proof (intro conjI allI impI)
  fix e t'
  assume "get_holdings fmp db t user = (Inl e, t')"
  then show "get_portfolio_summary fmp db t user = (Inl e, t')"
    by (simp add: get_portfolio_summary_eq)
next
  fix hs t'
  assume g: "get_holdings fmp db t user = (Inr hs, t')"
  then have "hs = spec_listing fmp t (query_all db (User.id' user))"
    by (rule get_holdings_Inr)
  then have "\<And>r. r \<in> set hs \<Longrightarrow>
      total_value r = current_price r * of_int (PortfolioHoldingResponse.shares r)"
    by (simp add: listing_total_value)
  then have tv: "(\<Sum>h\<leftarrow>hs. total_value h)
      = (\<Sum>h\<leftarrow>hs. current_price h * of_int (PortfolioHoldingResponse.shares h))"
    by (intro arg_cong [where f = sum_list] map_cong) simp_all
  show "\<exists>s. get_portfolio_summary fmp db t user = (Inr s, t') \<and>
           holdings s = hs \<and>
           total_invested s =
             (\<Sum>h\<leftarrow>hs. PortfolioHoldingResponse.purchase_price h
                        * of_int (PortfolioHoldingResponse.shares h)) \<and>
           current_value s = (\<Sum>h\<leftarrow>hs. total_value h) \<and>
           current_value s =
             (\<Sum>h\<leftarrow>hs. current_price h * of_int (PortfolioHoldingResponse.shares h)) \<and>
           total_gain_loss s = current_value s - total_invested s"
    using g tv by (simp add: get_portfolio_summary_eq)
qed

theorem summary_from_listing_witness:
  "get_holdings fmp_live \<lparr>rows = [holding_A, holding_B], next_id = 3\<rparr> 0 alice
     = (Inr [spec_response_at holding_A 120, spec_response_at holding_B 40], 2) \<and>
   (\<exists>s. get_portfolio_summary fmp_live \<lparr>rows = [holding_A, holding_B], next_id = 3\<rparr> 0 alice
           = (Inr s, 2) \<and>
        holdings s = [spec_response_at holding_A 120, spec_response_at holding_B 40] \<and>
        total_invested s = 1250 \<and> current_value s = 1400 \<and> total_gain_loss s = 150) \<and>
   get_holdings fmp_failing example_db 0 alice = (Inl HTTPStatusError, 2) \<and>
   get_portfolio_summary fmp_failing example_db 0 alice = (Inl HTTPStatusError, 2)"
proof -
  have f: "get_holdings fmp_failing example_db 0 alice = (Inl HTTPStatusError, 2)"
    by (simp add: get_holdings_def get_holdings_loop_eq query_all_def listed_price_def
          quote_price_def fixtures)
  have v: "(\<Sum>h\<leftarrow>[spec_response_at holding_A 120, spec_response_at holding_B 40].
              PortfolioHoldingResponse.purchase_price h * of_int (PortfolioHoldingResponse.shares h)) = 1250"
     "(\<Sum>h\<leftarrow>[spec_response_at holding_A 120, spec_response_at holding_B 40]. total_value h) = 1400"
    by (simp_all add: response_at_fields) (simp_all add: fixtures)
  from summary_from_listing [of fmp_live "\<lparr>rows = [holding_A, holding_B], next_id = 3\<rparr>" 0 alice]
    summary_from_listing [of fmp_failing example_db 0 alice]
  show ?thesis
    using spec_example_listing f v by force
qed

text \<open>
  Claim C7.  No valuation divides by zero: none of the three per-holding sites and not the
  summary ever raises \<open>ZeroDivisionError\<close>.  When the invested amount of a holding is 0,
  each of the three sites that values it (with a quote that has no price, or a price that
  is a number) returns percent 0; the only other outcome is the \<open>TypeError\<close> of a price
  that is not a number, where no percent is computed.  When the total invested of a summary
  is 0 its percent is 0; and for a user without holdings the summary is all zeros with an
  empty listing.
\<close>

theorem no_division_by_zero:
  "get_holdings_entry h quote \<noteq> Inl ZeroDivisionError \<and>
   add_holding_response h quote \<noteq> Inl ZeroDivisionError \<and>
   update_holding_response h quote \<noteq> Inl ZeroDivisionError \<and>
   fst (get_portfolio_summary fmp db t user) \<noteq> Inl ZeroDivisionError \<and>
   (PortfolioHolding.purchase_price h * of_int (PortfolioHolding.shares h) = 0 \<longrightarrow>
      (\<forall>c. entry_price h quote = Some c \<longrightarrow>
         (\<exists>r. get_holdings_entry h quote = Inr r \<and> add_holding_response h quote = Inr r \<and>
              update_holding_response h quote = Inr r \<and> gain_loss_percent r = 0)) \<and>
      (entry_price h quote = None \<longrightarrow>
         get_holdings_entry h quote = Inl TypeError \<and>
         add_holding_response h quote = Inl TypeError \<and>
         update_holding_response h quote = Inl TypeError)) \<and>
   (\<forall>s t'. get_portfolio_summary fmp db t user = (Inr s, t') \<longrightarrow> total_invested s = 0 \<longrightarrow>
      total_gain_loss_percent s = 0) \<and>
   (query_all db (User.id' user) = [] \<longrightarrow>
      get_portfolio_summary fmp db t user =
        (Inr \<lparr>total_invested = 0, current_value = 0, total_gain_loss = 0,
              total_gain_loss_percent = 0, holdings = []\<rparr>, t))"
proof -
  have e: "get_holdings_entry h quote \<noteq> Inl ZeroDivisionError"
    using get_holdings_entry_cases [of h quote] by auto
  have s: "fst (get_portfolio_summary fmp db t user) \<noteq> Inl ZeroDivisionError"
    by (auto simp: get_portfolio_summary_eq split: prod.splits sum.splits
          dest: get_holdings_Inl)
  have z: "PortfolioHolding.purchase_price h * of_int (PortfolioHolding.shares h) = 0 \<longrightarrow>
      (\<forall>c. entry_price h quote = Some c \<longrightarrow>
         (\<exists>r. get_holdings_entry h quote = Inr r \<and> add_holding_response h quote = Inr r \<and>
              update_holding_response h quote = Inr r \<and> gain_loss_percent r = 0))"
    using get_holdings_entry_zero_invested [of h quote]
    by (simp add: add_holding_response_eq update_holding_response_eq)
  have y: "entry_price h quote = None \<longrightarrow>
         get_holdings_entry h quote = Inl TypeError \<and>
         add_holding_response h quote = Inl TypeError \<and>
         update_holding_response h quote = Inl TypeError"
    by (simp add: add_holding_response_eq update_holding_response_eq get_holdings_entry_eq)
  have p: "\<forall>s t'. get_portfolio_summary fmp db t user = (Inr s, t') \<longrightarrow> total_invested s = 0 \<longrightarrow>
      total_gain_loss_percent s = 0"
    by (auto simp: get_portfolio_summary_eq split: prod.splits sum.splits)
  have n: "query_all db (User.id' user) = [] \<longrightarrow>
      get_portfolio_summary fmp db t user =
        (Inr \<lparr>total_invested = 0, current_value = 0, total_gain_loss = 0,
              total_gain_loss_percent = 0, holdings = []\<rparr>, t)"
    by (simp add: get_portfolio_summary_eq get_holdings_empty)
  show ?thesis
    using e s z y p n by (simp add: add_holding_response_eq update_holding_response_eq)
qed

theorem no_division_by_zero_witness:
  "(\<exists>r. get_holdings_entry (holding_A\<lparr>PortfolioHolding.shares := 0\<rparr>)
          (Some [(''price'', JNum 120)]) = Inr r \<and>
        gain_loss_percent r = 0) \<and>
   get_holdings_entry (holding_A\<lparr>PortfolioHolding.shares := 0\<rparr>) (Some [(''price'', JNull)])
     = Inl TypeError \<and>
   get_portfolio_summary fmp_live empty_db 0 alice =
     (Inr \<lparr>total_invested = 0, current_value = 0, total_gain_loss = 0,
           total_gain_loss_percent = 0, holdings = []\<rparr>, 0) \<and>
   total_gain_loss_percent \<lparr>total_invested = 0, current_value = 0, total_gain_loss = 0,
           total_gain_loss_percent = 0, holdings = []\<rparr> = 0"
proof -
  have i: "PortfolioHolding.purchase_price (holding_A\<lparr>PortfolioHolding.shares := 0\<rparr>)
      * of_int (PortfolioHolding.shares (holding_A\<lparr>PortfolioHolding.shares := 0\<rparr>)) = 0"
    by simp
  have c: "entry_price (holding_A\<lparr>PortfolioHolding.shares := 0\<rparr>) (Some [(''price'', JNum 120)])
      = Some 120"
    by (simp add: entry_price_def)
  have d: "entry_price (holding_A\<lparr>PortfolioHolding.shares := 0\<rparr>) (Some [(''price'', JNull)])
      = None"
    by (simp add: entry_price_def)
  have q: "query_all empty_db (User.id' alice) = []"
    by (simp add: query_all_def fixtures)
  from no_division_by_zero [of "holding_A\<lparr>PortfolioHolding.shares := 0\<rparr>"
      "Some [(''price'', JNum 120)]" fmp_live empty_db 0 alice]
    no_division_by_zero [of "holding_A\<lparr>PortfolioHolding.shares := 0\<rparr>"
      "Some [(''price'', JNull)]" fmp_live empty_db 0 alice]
  show ?thesis
    using i c d q by auto
qed

section \<open>Listing with a provider that has no quote\<close>


text \<open>
  A price that is present and not a number ends the listing in the same way, though no
  request raises: \<^verbatim>\<open>quote.get("price", ...)\<close> returns the \<^verbatim>\<open>null\<close> and the product of line 80
  raises.  The fallback to the purchase price is for a missing quote or a missing key only.
\<close>

lemma listing_aborts_on_null_price:
  "all_quoted fmp_null 0 (query_all example_db (User.id' alice)) \<and>
   quote_price fmp_null 1 ''MSFT'' = Some JNull \<and>
   get_holdings fmp_null example_db 0 alice = (Inl TypeError, 2)"
  by (simp add: get_holdings_def get_holdings_loop_eq query_all_def listed_price_def
        quote_price_def fixtures)



section \<open>Creating a holding with a share count or price that is not positive\<close>

text \<open>
  Claim C2, as stated, fails: \<open>add_holding\<close> has no check of the share count or the price.
  Given a resolvable symbol, zero shares and a negative price, it commits the row.
\<close>

theorem add_holding_accepts_nonpositive:
  "add_holding fmp_live 77 example_db 0 alice
      \<lparr>PortfolioHoldingCreate.symbol = ''aapl'', PortfolioHoldingCreate.shares = 0,
       PortfolioHoldingCreate.purchase_price = - 1\<rparr>
     = (Inr \<lparr>PortfolioHolding.id' = 5, user_id = 1, PortfolioHolding.symbol = ''AAPL'',
             PortfolioHolding.company_name = ''Apple Inc.'', PortfolioHolding.shares = 0,
             PortfolioHolding.purchase_price = - 1, PortfolioHolding.purchased_at = 77\<rparr>,
        \<lparr>rows = [holding_A, holding_B, holding_C, holding_D,
                 \<lparr>PortfolioHolding.id' = 5, user_id = 1, PortfolioHolding.symbol = ''AAPL'',
                  PortfolioHolding.company_name = ''Apple Inc.'', PortfolioHolding.shares = 0,
                  PortfolioHolding.purchase_price = - 1, PortfolioHolding.purchased_at = 77\<rparr>],
         next_id = 6\<rparr>, 1)"
  by (simp add: add_holding_def get_company_profile_def truthy_def dict_get_def db_add_def
        upper_aapl Let_def example_db_def example_profiles_def fmp_live_def alice_def)

text \<open>
  Claim C2, amended.  A creation request whose share count or purchase price is not
  positive is rejected by the schema of the request body, before the service is called:
  the route raises the validation error, the session is unchanged and no request is sent
  to the provider.  The service itself does not look at the two values: for a symbol the
  provider resolves it commits a row that carries them as given.
\<close>

theorem creation_rejected_at_the_boundary:
  assumes "n \<le> 0 \<or> price \<le> 0"
  shows "parse_PortfolioHoldingCreate ticker n price = Inl RequestValidationError \<and>
         add_holding_route fmp now db t user ticker n price = (Inl RequestValidationError, db, t) \<and>
         (\<forall>holding_data profile t'.
            get_company_profile fmp t (PortfolioHoldingCreate.symbol holding_data)
              = (Inr profile, t') \<and> truthy profile \<longrightarrow>
            (\<exists>holding. add_holding fmp now db t user holding_data
                          = (Inr holding, db_add db holding, t') \<and>
               PortfolioHolding.shares holding = PortfolioHoldingCreate.shares holding_data \<and>
               PortfolioHolding.purchase_price holding
                 = PortfolioHoldingCreate.purchase_price holding_data))"
proof -
  from assms have p: "parse_PortfolioHoldingCreate ticker n price = Inl RequestValidationError"
    by (auto simp: parse_PortfolioHoldingCreate_def)
  then have r: "add_holding_route fmp now db t user ticker n price
      = (Inl RequestValidationError, db, t)"
    by (simp add: add_holding_route_def)
  have l: "\<forall>holding_data profile t'.
            get_company_profile fmp t (PortfolioHoldingCreate.symbol holding_data)
              = (Inr profile, t') \<and> truthy profile \<longrightarrow>
            (\<exists>holding. add_holding fmp now db t user holding_data
                          = (Inr holding, db_add db holding, t') \<and>
               PortfolioHolding.shares holding = PortfolioHoldingCreate.shares holding_data \<and>
               PortfolioHolding.purchase_price holding
                 = PortfolioHoldingCreate.purchase_price holding_data)"
    by (simp add: add_holding_def Let_def)
  show ?thesis using p r l by blast
qed

theorem creation_rejected_at_the_boundary_witness:
  "add_holding_route fmp_live 77 example_db 0 alice ''aapl'' 0 100
     = (Inl RequestValidationError, example_db, 0) \<and>
   add_holding_route fmp_live 77 example_db 0 alice ''aapl'' 3 (- 1)
     = (Inl RequestValidationError, example_db, 0)"
proof -
  have a: "(0::int) \<le> 0 \<or> (100::rat) \<le> 0" by simp
  have b: "(3::int) \<le> 0 \<or> (- 1::rat) \<le> 0" by simp
  show ?thesis
    using creation_rejected_at_the_boundary [OF a, of "''aapl''" fmp_live 77 example_db 0 alice]
      creation_rejected_at_the_boundary [OF b, of "''aapl''" fmp_live 77 example_db 0 alice]
    by simp
qed

end
